theory Spec2Isabelle
  imports Complex_Main "HOL-Library.While_Combinator" "HOL-Library.Sublist"
begin

section \<open>Data model\<close>

text \<open>
  The analyser of \<^verbatim>\<open>main.py\<close> is glue around a computer-algebra library. The
  expression trees the library builds are a datatype; every call into the library is a
  field of the record \<open>sympy\<close> and returns \<open>exn + result\<close>, \<open>Inl\<close> being a raised
  exception, so that each \<^verbatim>\<open>try/except\<close> of the source is a \<open>case\<close> of the model.
  Theorems quantify over the library record: they hold whatever the library answers.
\<close>

datatype expr =
    Symbol string
  | Integer int
  | Rational int int
  | Float rat
  | Add "expr list"
  | Mul "expr list"
  | Pow expr expr
  | Log expr
  | Infinity
  | NegativeInfinity
  | ComplexInfinity
  | NaN
  | Reals
  | Interval expr expr expr expr
  | BooleanTrue
  | BooleanFalse
  | Rel_eq expr expr
  | Rel_gt expr expr
  | Rel_ge expr expr

text \<open>A raised Python exception \<open>e\<close>, carrying \<^verbatim>\<open>str(e)\<close>.\<close>

datatype exn = Exception string

fun str_exn :: "exn \<Rightarrow> string" where
  "str_exn (Exception m) = m"

text \<open>
  A Python number (an \<^verbatim>\<open>int\<close> or a \<^verbatim>\<open>float\<close>). Integers and finite floats
  are \<open>Finite r\<close> with exact rational arithmetic (rounding is not modelled); the
  other three values are the non-finite floats.
\<close>

datatype pynum = Finite rat | PosInf | NegInf | NotANumber

text \<open>\<^verbatim>\<open>math.isfinite\<close>.\<close>

fun isfinite :: "pynum \<Rightarrow> bool" where
  "isfinite (Finite r) = True"
| "isfinite PosInf = False"
| "isfinite NegInf = False"
| "isfinite NotANumber = False"

text \<open>The classes handed to \<^verbatim>\<open>expr.atoms(...)\<close>.\<close>

datatype cls = Cls_log | Cls_Pow

text \<open>
  The library. \<open>str\<close> and \<open>float\<close> are Python's \<^verbatim>\<open>str(...)\<close> and
  \<^verbatim>\<open>float(...)\<close> on a library object; \<open>is_real\<close> is the three-valued attribute
  (\<open>None\<close> when the library cannot tell).
\<close>

record sympy =
  sympify :: "string \<Rightarrow> exn + expr"
  simplify :: "expr \<Rightarrow> exn + expr"
  fraction :: "expr \<Rightarrow> exn + expr \<times> expr"
  Eq :: "expr \<Rightarrow> expr \<Rightarrow> exn + expr"
  StrictGreaterThan :: "expr \<Rightarrow> expr \<Rightarrow> exn + expr"
  solve :: "expr \<Rightarrow> expr \<Rightarrow> exn + expr list"
  im :: "expr \<Rightarrow> exn + expr"
  atoms :: "expr \<Rightarrow> cls \<Rightarrow> exn + expr list"
  as_base_exp :: "expr \<Rightarrow> exn + expr \<times> expr"
  subs :: "expr \<Rightarrow> expr \<Rightarrow> pynum \<Rightarrow> exn + expr"
  N :: "expr \<Rightarrow> exn + expr"
  function_range :: "expr \<Rightarrow> expr \<Rightarrow> expr \<Rightarrow> exn + expr"
  srepr :: "expr \<Rightarrow> exn + string"
  str :: "expr \<Rightarrow> exn + string"
  float :: "expr \<Rightarrow> exn + pynum"
  is_real :: "expr \<Rightarrow> bool option"

text \<open>
  Python's own rendering of a float inside an f-string: \<^verbatim>\<open>{v}\<close> and
  \<^verbatim>\<open>{v:.4g}\<close>.
\<close>

record python =
  format_repr :: "pynum \<Rightarrow> string"
  format_4g :: "pynum \<Rightarrow> string"

text \<open>The module-level symbol \<^verbatim>\<open>x = sp.symbols('x')\<close>.\<close>

definition x :: expr where
  "x = Symbol ''x''"

section \<open>Expression parser\<close>

definition safe_sympify :: "sympy \<Rightarrow> string \<Rightarrow> expr option \<times> string option" where
  "safe_sympify sp expr_str =
     (case sympify sp expr_str of
        Inr e \<Rightarrow> (Some e, None)
      | Inl e \<Rightarrow> (None, Some (str_exn e)))"

section \<open>Point evaluator\<close>

text \<open>The accented letters of the messages, as their UTF-8 bytes.\<close>

definition a_acute :: string where "a_acute = [CHR 0xC3, CHR 0xA1]"
definition e_acute :: string where "e_acute = [CHR 0xC3, CHR 0xA9]"
definition i_acute :: string where "i_acute = [CHR 0xC3, CHR 0xAD]"
definition o_acute :: string where "o_acute = [CHR 0xC3, CHR 0xB3]"

text \<open>
  The body of the \<^verbatim>\<open>try\<close> block of \<^verbatim>\<open>evaluate_point\<close>: the three steps
  and the numeric value, or the first exception raised.
\<close>

definition evaluate_point_try ::
  "sympy \<Rightarrow> python \<Rightarrow> expr \<Rightarrow> pynum \<Rightarrow> exn + string list \<times> pynum" where
  "evaluate_point_try sp py expr x_val =
     (case srepr sp expr of Inl e \<Rightarrow> Inl e | Inr r \<Rightarrow>
      (case subs sp expr x x_val of Inl e \<Rightarrow> Inl e | Inr substituted \<Rightarrow>
      (case simplify sp substituted of Inl e \<Rightarrow> Inl e | Inr simp \<Rightarrow>
      (case str sp simp of Inl e \<Rightarrow> Inl e | Inr simp_str \<Rightarrow>
      (case N sp substituted of Inl e \<Rightarrow> Inl e | Inr n \<Rightarrow>
      (case float sp n of Inl e \<Rightarrow> Inl e | Inr numeric \<Rightarrow>
         Inr ([''Expresi'' @ o_acute @ ''n original: '' @ r,
               ''Sustituyendo x = '' @ format_repr py x_val @ '' -> '' @ simp_str,
               ''C'' @ a_acute @ ''lculo num'' @ e_acute @ ''rico: f('' @ format_repr py x_val
                  @ '') = '' @ format_repr py numeric],
              numeric)))))))"

definition evaluate_point ::
  "sympy \<Rightarrow> python \<Rightarrow> expr \<Rightarrow> pynum \<Rightarrow> string list \<times> pynum option \<times> string option" where
  "evaluate_point sp py expr x_val =
     (case evaluate_point_try sp py expr x_val of
        Inr (steps, numeric) \<Rightarrow> (steps, Some numeric, None)
      | Inl e \<Rightarrow> ([''Error en evaluaci'' @ o_acute @ ''n: '' @ str_exn e], None, Some (str_exn e)))"

section \<open>Domain analyser\<close>

text \<open>The comprehension \<^verbatim>\<open>[s for s in sols if sp.im(s) == 0]\<close>.\<close>

fun real_sols :: "sympy \<Rightarrow> expr list \<Rightarrow> exn + expr list" where
  "real_sols sp [] = Inr []"
| "real_sols sp (s # sols) =
     (case im sp s of Inl e \<Rightarrow> Inl e | Inr i \<Rightarrow>
      (case real_sols sp sols of Inl e \<Rightarrow> Inl e | Inr rs \<Rightarrow>
         Inr (if i = Integer 0 then s # rs else rs)))"

text \<open>\<^verbatim>\<open>list(map(f, ss))\<close> for a library call \<open>f\<close>: the first exception ends it.\<close>

fun map_exn :: "('a \<Rightarrow> exn + 'b) \<Rightarrow> 'a list \<Rightarrow> exn + 'b list" where
  "map_exn f [] = Inr []"
| "map_exn f (s # ss) =
     (case f s of Inl e \<Rightarrow> Inl e | Inr v \<Rightarrow>
      (case map_exn f ss of Inl e \<Rightarrow> Inl e | Inr vs \<Rightarrow> Inr (v # vs)))"

definition find_denominator_singularities_try :: "sympy \<Rightarrow> expr \<Rightarrow> exn + expr list" where
  "find_denominator_singularities_try sp expr =
     (case simplify sp expr of Inl e \<Rightarrow> Inl e | Inr simp \<Rightarrow>
      (case fraction sp simp of Inl e \<Rightarrow> Inl e | Inr (num, den) \<Rightarrow>
         if den = Integer 1 then Inr []
         else
          (case Eq sp den (Integer 0) of Inl e \<Rightarrow> Inl e | Inr eqn \<Rightarrow>
          (case solve sp eqn x of Inl e \<Rightarrow> Inl e | Inr sols \<Rightarrow>
          (case real_sols sp sols of Inl e \<Rightarrow> Inl e | Inr rs \<Rightarrow>
             map_exn (simplify sp) rs)))))"

definition find_denominator_singularities :: "sympy \<Rightarrow> expr \<Rightarrow> expr list" where
  "find_denominator_singularities sp expr =
     (case find_denominator_singularities_try sp expr of
        Inr sing \<Rightarrow> sing
      | Inl e \<Rightarrow> [])"

text \<open>The attribute \<^verbatim>\<open>.args\<close>: the children of a node.\<close>

fun args :: "expr \<Rightarrow> expr list" where
  "args (Add as) = as"
| "args (Mul as) = as"
| "args (Pow b e) = [b, e]"
| "args (Log a) = [a]"
| "args (Rel_eq a b) = [a, b]"
| "args (Rel_gt a b) = [a, b]"
| "args (Rel_ge a b) = [a, b]"
| "args (Interval a b left_open right_open) = [a, b, left_open, right_open]"
| "args _ = []"

fun log_constraints_loop :: "sympy \<Rightarrow> expr list \<Rightarrow> expr list \<Rightarrow> exn + expr list" where
  "log_constraints_loop sp [] constraints = Inr constraints"
| "log_constraints_loop sp (f # fs) constraints =
     (case args f of
        [] \<Rightarrow> log_constraints_loop sp fs constraints
      | a # _ \<Rightarrow>
         (case StrictGreaterThan sp a (Integer 0) of Inl e \<Rightarrow> Inl e | Inr c \<Rightarrow>
            log_constraints_loop sp fs (constraints @ [c])))"

definition find_log_constraints :: "sympy \<Rightarrow> expr \<Rightarrow> exn + expr list" where
  "find_log_constraints sp expr =
     (case atoms sp expr Cls_log of Inl e \<Rightarrow> Inl e | Inr fs \<Rightarrow>
        log_constraints_loop sp fs [])"

text \<open>
  The attributes \<^verbatim>\<open>.is_Rational\<close> and \<^verbatim>\<open>.q\<close>: an integer is a rational of
  denominator 1; \<open>q\<close> is \<open>None\<close> where the attribute does not exist.
\<close>

fun is_Rational :: "expr \<Rightarrow> bool" where
  "is_Rational (Integer n) = True"
| "is_Rational (Rational n d) = True"
| "is_Rational _ = False"

fun q :: "expr \<Rightarrow> int option" where
  "q (Integer n) = Some 1"
| "q (Rational n d) = Some d"
| "q _ = None"

fun even_root_loop :: "sympy \<Rightarrow> expr list \<Rightarrow> expr list \<Rightarrow> exn + expr list" where
  "even_root_loop sp [] constraints = Inr constraints"
| "even_root_loop sp (p # ps) constraints =
     (case as_base_exp sp p of Inl e \<Rightarrow> Inl e | Inr (base, expo) \<Rightarrow>
        if is_Rational expo then
          (case q expo of
             None \<Rightarrow> Inl (Exception ''AttributeError'')
           | Some den \<Rightarrow>
               if den mod 2 = 0 then
                 (case StrictGreaterThan sp base NegativeInfinity of Inl e \<Rightarrow> Inl e | Inr c \<Rightarrow>
                    even_root_loop sp ps (constraints @ [c]))
               else even_root_loop sp ps constraints)
        else even_root_loop sp ps constraints)"

definition find_even_root_problems :: "sympy \<Rightarrow> expr \<Rightarrow> exn + expr list" where
  "find_even_root_problems sp expr =
     (case atoms sp expr Cls_Pow of Inl e \<Rightarrow> Inl e | Inr ps \<Rightarrow>
        even_root_loop sp ps [])"

text \<open>
  A Python \<^verbatim>\<open>set\<close> is kept as a duplicate-free list. Its iteration order is not
  specified by Python; the model takes insertion order, and the theorems below hold of
  the list whatever its order.
\<close>

definition set_add :: "'a list \<Rightarrow> 'a \<Rightarrow> 'a list" where
  "set_add s v = (if v \<in> set s then s else s @ [v])"

fun add_simplified :: "sympy \<Rightarrow> expr list \<Rightarrow> expr list \<Rightarrow> exn + expr list" where
  "add_simplified sp [] domain_exceptions = Inr domain_exceptions"
| "add_simplified sp (s # ss) domain_exceptions =
     (case simplify sp s of Inl e \<Rightarrow> Inl e | Inr v \<Rightarrow>
        add_simplified sp ss (set_add domain_exceptions v))"

text \<open>\<^verbatim>\<open>sep.join(parts)\<close>.\<close>

fun join :: "string \<Rightarrow> string list \<Rightarrow> string" where
  "join sep [] = []"
| "join sep [a] = a"
| "join sep (a # b # r) = a @ sep @ join sep (b # r)"

text \<open>\<^verbatim>\<open>str(sp.N(v))\<close>.\<close>

definition str_N :: "sympy \<Rightarrow> expr \<Rightarrow> exn + string" where
  "str_N sp v = (case N sp v of Inl e \<Rightarrow> Inl e | Inr n \<Rightarrow> str sp n)"

definition domain_parts :: "string \<Rightarrow> expr list \<Rightarrow> expr list \<Rightarrow> expr list \<Rightarrow> string list" where
  "domain_parts values domain_exceptions logs roots =
     (if domain_exceptions \<noteq> [] then [''excepto x = '' @ values] else [])
     @ (if logs \<noteq> [] then [''y adem'' @ a_acute @ ''s los argumentos de log deben ser > 0''] else [])
     @ (if roots \<noteq> []
        then [''y cuidar ra'' @ i_acute @ ''ces de '' @ i_acute @ ''ndice par (radicandos >= 0)'']
        else [])"

definition compute_domain ::
  "sympy \<Rightarrow> expr \<Rightarrow> exn + string \<times> expr list \<times> expr list \<times> expr list" where
  "compute_domain sp expr =
     (case add_simplified sp (find_denominator_singularities sp expr) [] of
        Inl e \<Rightarrow> Inl e | Inr domain_exceptions \<Rightarrow>
      (case find_log_constraints sp expr of Inl e \<Rightarrow> Inl e | Inr logs \<Rightarrow>
      (case find_even_root_problems sp expr of Inl e \<Rightarrow> Inl e | Inr roots \<Rightarrow>
         if domain_exceptions \<noteq> [] \<or> logs \<noteq> [] \<or> roots \<noteq> [] then
           (case (if domain_exceptions \<noteq> [] then map_exn (str_N sp) domain_exceptions else Inr [])
            of Inl e \<Rightarrow> Inl e | Inr strs \<Rightarrow>
              Inr (''Dominio: todos los reales, ''
                     @ join ''; '' (domain_parts (join '', '' strs) domain_exceptions logs roots),
                   domain_exceptions, logs, roots))
         else Inr (''Dominio: todos los reales'', domain_exceptions, logs, roots))))"

section \<open>Intersection solver\<close>



section \<open>Range estimator\<close>








section \<open>Curve sampler\<close>

text \<open>
  The test \<^verbatim>\<open>abs(cur - sval) < 1e-2\<close>: false when \<open>sval\<close> is infinite or not a
  number.
\<close>

fun near :: "rat \<Rightarrow> pynum \<Rightarrow> bool" where
  "near cur (Finite sval) = (\<bar>cur - sval\<bar> < 1 / 100)"
| "near cur _ = False"

text \<open>The inner \<^verbatim>\<open>for\<close> loop: the value of \<^verbatim>\<open>skip\<close> after it.\<close>

fun skip_near :: "sympy \<Rightarrow> rat \<Rightarrow> expr list \<Rightarrow> bool" where
  "skip_near sp cur [] = False"
| "skip_near sp cur (s # ss) =
     (case N sp s of Inl e \<Rightarrow> skip_near sp cur ss | Inr n \<Rightarrow>
      (case float sp n of Inl e \<Rightarrow> skip_near sp cur ss | Inr sval \<Rightarrow>
         if near cur sval then True else skip_near sp cur ss))"

text \<open>The second \<^verbatim>\<open>try\<close> block: the value appended to \<^verbatim>\<open>ys\<close>, if any.\<close>

definition sample_point :: "sympy \<Rightarrow> expr \<Rightarrow> rat \<Rightarrow> pynum option" where
  "sample_point sp expr cur =
     (case subs sp expr x (Finite cur) of Inl e \<Rightarrow> None | Inr at_cur \<Rightarrow>
      (case N sp at_cur of Inl e \<Rightarrow> None | Inr yv \<Rightarrow>
         if is_real sp yv = Some True then
           (case float sp yv of Inl e \<Rightarrow> None | Inr yvf \<Rightarrow>
              if isfinite yvf then Some yvf else None)
         else None))"

text \<open>The body of the \<^verbatim>\<open>while\<close> loop, on the state \<open>(cur, xs, ys)\<close>.\<close>

fun sample_step ::
  "sympy \<Rightarrow> expr \<Rightarrow> expr list \<Rightarrow> rat \<Rightarrow> rat \<times> rat list \<times> pynum list \<Rightarrow> rat \<times> rat list \<times> pynum list" where
  "sample_step sp expr domain_exceptions step (cur, xs, ys) =
     (if \<not> skip_near sp cur domain_exceptions then
        (case sample_point sp expr cur of
           Some yvf \<Rightarrow> (cur + step, xs @ [cur], ys @ [yvf])
         | None \<Rightarrow> (cur + step, xs, ys))
      else (cur + step, xs, ys))"

text \<open>
  The loop \<^verbatim>\<open>while cur <= x_max\<close> may run forever, so the sampler returns an
  option: \<open>None\<close> when it does not return.
\<close>

definition sample_function ::
  "sympy \<Rightarrow> expr \<Rightarrow> expr list \<Rightarrow> rat \<Rightarrow> rat \<Rightarrow> int \<Rightarrow> (rat list \<times> pynum list) option" where
  "sample_function sp expr domain_exceptions x_min x_max n_points =
     (let step = (x_max - x_min) / of_int (max 1 n_points) in
      map_option (\<lambda>(cur, xs, ys). (xs, ys))
        (while_option (\<lambda>(cur, xs, ys). cur \<le> x_max)
           (sample_step sp expr domain_exceptions step) (x_min, [], [])))"




section \<open>A table of library answers\<close>

text \<open>
  The theorems below hold for every library record. To run the analyser on concrete
  inputs, \<open>sympy_ref\<close> tabulates what the library answers on the expressions
  \<^verbatim>\<open>1/x\<close>, \<^verbatim>\<open>x + 1\<close>, \<^verbatim>\<open>sqrt(x)\<close> and \<^verbatim>\<open>log(x)/x\<close>, on the numbers they reduce to and
  on a few input strings. Outside the table a call raises \<open>outside\<close>; nothing below
  depends on that. Exception messages are abbreviated.
\<close>

definition one_over_x :: expr where
  "one_over_x = Pow x (Integer (- 1))"

definition x_plus_1 :: expr where
  "x_plus_1 = Add [x, Integer 1]"

definition sqrt_x :: expr where
  "sqrt_x = Pow x (Rational 1 2)"

definition log_x_over_x :: expr where
  "log_x_over_x = Mul [Pow x (Integer (- 1)), Log x]"

definition outside :: exn where
  "outside = Exception ''outside the table''"

fun subterms :: "expr \<Rightarrow> expr list" where
  "subterms (Add as) = Add as # concat (map subterms as)"
| "subterms (Mul as) = Mul as # concat (map subterms as)"
| "subterms (Pow b e) = Pow b e # subterms b @ subterms e"
| "subterms (Log a) = Log a # subterms a"
| "subterms (Rel_eq a b) = Rel_eq a b # subterms a @ subterms b"
| "subterms (Rel_gt a b) = Rel_gt a b # subterms a @ subterms b"
| "subterms (Rel_ge a b) = Rel_ge a b # subterms a @ subterms b"
| "subterms (Interval a b l r) =
     Interval a b l r # subterms a @ subterms b @ subterms l @ subterms r"
| "subterms e = [e]"

fun instance_of :: "cls \<Rightarrow> expr \<Rightarrow> bool" where
  "instance_of Cls_log (Log a) = True"
| "instance_of Cls_Pow (Pow b e) = True"
| "instance_of _ _ = False"

definition ref_sympify :: "string \<Rightarrow> exn + expr" where
  "ref_sympify s =
     (if s = ''1/x'' then Inr one_over_x
      else if s = ''x + 1'' then Inr x_plus_1
      else if s = ''sqrt(x)'' then Inr sqrt_x
      else if s = ''log(x)/x'' then Inr log_x_over_x
      else if s = ''y'' then Inr (Symbol ''y'')
      else if s = ''x +* 2'' then Inl (Exception ''SympifyError'')
      else Inl outside)"

definition ref_simplify :: "expr \<Rightarrow> exn + expr" where
  "ref_simplify e =
     (if e \<in> {one_over_x, x_plus_1, sqrt_x, log_x_over_x, Integer 0, ComplexInfinity, Float 3}
      then Inr e
      else Inl outside)"

definition ref_fraction :: "expr \<Rightarrow> exn + expr \<times> expr" where
  "ref_fraction e =
     (if e = one_over_x then Inr (Integer 1, x)
      else if e = log_x_over_x then Inr (Log x, x)
      else if e = x_plus_1 \<or> e = sqrt_x then Inr (e, Integer 1)
      else Inl outside)"

definition ref_Eq :: "expr \<Rightarrow> expr \<Rightarrow> exn + expr" where
  "ref_Eq a b =
     (if a \<in> {x, one_over_x, x_plus_1} \<and> b = Integer 0 then Inr (Rel_eq a b) else Inl outside)"

definition ref_StrictGreaterThan :: "expr \<Rightarrow> expr \<Rightarrow> exn + expr" where
  "ref_StrictGreaterThan a b =
     (if a = x \<and> (b = NegativeInfinity \<or> b = Integer 0) then Inr (Rel_gt a b) else Inl outside)"

definition ref_solve :: "expr \<Rightarrow> expr \<Rightarrow> exn + expr list" where
  "ref_solve eqn symb =
     (if eqn = Rel_eq x (Integer 0) \<and> symb = x then Inr [Integer 0]
      else if eqn = Rel_eq one_over_x (Integer 0) \<and> symb = x then Inr []
      else if eqn = Rel_eq x_plus_1 (Integer 0) \<and> symb = x then Inr [Integer (- 1)]
      else Inl outside)"

fun ref_im :: "expr \<Rightarrow> exn + expr" where
  "ref_im (Integer n) = Inr (Integer 0)"
| "ref_im (Rational n d) = Inr (Integer 0)"
| "ref_im (Float r) = Inr (Integer 0)"
| "ref_im e = Inl outside"

fun ref_as_base_exp :: "expr \<Rightarrow> exn + expr \<times> expr" where
  "ref_as_base_exp (Pow (Symbol s) e) = Inr (Symbol s, e)"
| "ref_as_base_exp e = Inl outside"

definition ref_subs :: "expr \<Rightarrow> expr \<Rightarrow> pynum \<Rightarrow> exn + expr" where
  "ref_subs e symb v =
     (case v of
        Finite r \<Rightarrow>
          if e = one_over_x \<and> symb = x then Inr (if r = 0 then ComplexInfinity else Float (1 / r))
          else if e = x_plus_1 \<and> symb = x then Inr (Float (r + 1))
          else Inl outside
      | _ \<Rightarrow> Inl outside)"

fun ref_N :: "expr \<Rightarrow> exn + expr" where
  "ref_N (Integer n) = Inr (if n = 0 then Integer 0 else Float (of_int n))"
| "ref_N (Float r) = Inr (Float r)"
| "ref_N ComplexInfinity = Inr ComplexInfinity"
| "ref_N e = Inl outside"

definition ref_function_range :: "expr \<Rightarrow> expr \<Rightarrow> expr \<Rightarrow> exn + expr" where
  "ref_function_range e symb domain =
     (if e = x_plus_1 \<and> symb = x \<and> domain = Reals
      then Inr (Interval NegativeInfinity Infinity BooleanTrue BooleanTrue)
      else Inl outside)"

definition ref_srepr :: "expr \<Rightarrow> exn + string" where
  "ref_srepr e =
     (if e = x_plus_1 then Inr ''Add(Symbol('x'), Integer(1))''
      else if e = one_over_x then Inr ''Pow(Symbol('x'), Integer(-1))''
      else Inl outside)"

definition ref_str :: "expr \<Rightarrow> exn + string" where
  "ref_str e =
     (if e = Integer 0 then Inr ''0''
      else if e = Float 3 then Inr ''3.00000000000000''
      else if e = ComplexInfinity then Inr ''zoo''
      else if e = Interval NegativeInfinity Infinity BooleanTrue BooleanTrue
        then Inr ''Interval(-oo, oo)''
      else Inl outside)"

fun ref_float :: "expr \<Rightarrow> exn + pynum" where
  "ref_float (Integer n) = Inr (Finite (of_int n))"
| "ref_float (Float r) = Inr (Finite r)"
| "ref_float Infinity = Inr PosInf"
| "ref_float NegativeInfinity = Inr NegInf"
| "ref_float NaN = Inr NotANumber"
| "ref_float ComplexInfinity = Inl (Exception ''Cannot convert complex to float'')"
| "ref_float e = Inl outside"

fun ref_is_real :: "expr \<Rightarrow> bool option" where
  "ref_is_real (Integer n) = Some True"
| "ref_is_real (Rational n d) = Some True"
| "ref_is_real (Float r) = Some True"
| "ref_is_real Infinity = Some False"
| "ref_is_real NegativeInfinity = Some False"
| "ref_is_real ComplexInfinity = Some False"
| "ref_is_real e = None"

definition sympy_ref :: sympy where
  "sympy_ref =
     \<lparr> sympify = ref_sympify,
       simplify = ref_simplify,
       fraction = ref_fraction,
       Eq = ref_Eq,
       StrictGreaterThan = ref_StrictGreaterThan,
       solve = ref_solve,
       im = ref_im,
       atoms = (\<lambda>e c. Inr (remdups (filter (instance_of c) (subterms e)))),
       as_base_exp = ref_as_base_exp,
       subs = ref_subs,
       N = ref_N,
       function_range = ref_function_range,
       srepr = ref_srepr,
       str = ref_str,
       float = ref_float,
       is_real = ref_is_real \<rparr>"

text \<open>The same table, for a library whose exact range procedure raises.\<close>

definition sympy_range_fails :: sympy where
  "sympy_range_fails =
     sympy_ref \<lparr> function_range := (\<lambda>e symb domain. Inl (Exception ''NotImplementedError'')) \<rparr>"

text \<open>Python's rendering of the floats that occur below.\<close>

definition python_ref :: python where
  "python_ref =
     \<lparr> format_repr = (\<lambda>v. if v = Finite 0 then ''0.0'' else if v = Finite 2 then ''2.0''
                          else if v = Finite 3 then ''3.0'' else []),
       format_4g = (\<lambda>v. if v = Finite (1 / 2) then ''0.5'' else if v = Finite (- (1 / 2)) then ''-0.5''
                        else []) \<rparr>"

section \<open>Evaluating the table\<close>

lemmas ref_simps = sympy_ref_def python_ref_def ref_sympify_def ref_simplify_def ref_fraction_def
  ref_Eq_def ref_StrictGreaterThan_def ref_solve_def ref_subs_def ref_function_range_def
  ref_srepr_def ref_str_def one_over_x_def x_plus_1_def sqrt_x_def log_x_over_x_def x_def outside_def

section \<open>The point evaluator returns a trace or an error\<close>

lemma evaluate_point_try_Inr:
  "evaluate_point_try sp py expr x_val = Inr (steps, v) \<longleftrightarrow>
     (\<exists>r s simp t n. srepr sp expr = Inr r \<and> subs sp expr x x_val = Inr s \<and>
        simplify sp s = Inr simp \<and> str sp simp = Inr t \<and> N sp s = Inr n \<and> float sp n = Inr v \<and>
        steps = [''Expresi'' @ o_acute @ ''n original: '' @ r,
                 ''Sustituyendo x = '' @ format_repr py x_val @ '' -> '' @ t,
                 ''C'' @ a_acute @ ''lculo num'' @ e_acute @ ''rico: f('' @ format_repr py x_val
                    @ '') = '' @ format_repr py v])"
  unfolding evaluate_point_try_def by (auto split: sum.splits)

lemma evaluate_point_try_Inl:
  "evaluate_point_try sp py expr x_val = Inl e \<longleftrightarrow>
     (srepr sp expr = Inl e \<or>
      (\<exists>r. srepr sp expr = Inr r \<and>
        (subs sp expr x x_val = Inl e \<or>
         (\<exists>s. subs sp expr x x_val = Inr s \<and>
           (simplify sp s = Inl e \<or>
            (\<exists>simp. simplify sp s = Inr simp \<and>
              (str sp simp = Inl e \<or>
               (\<exists>t. str sp simp = Inr t \<and>
                 (N sp s = Inl e \<or> (\<exists>n. N sp s = Inr n \<and> float sp n = Inl e))))))))))"
  unfolding evaluate_point_try_def by (auto split: sum.splits)

lemma evaluate_point_success:
  "evaluate_point_try sp py expr x_val = Inr (steps, v) \<Longrightarrow>
     evaluate_point sp py expr x_val = (steps, Some v, None)"
  by (simp add: evaluate_point_def)

lemma evaluate_point_failure:
  "evaluate_point_try sp py expr x_val = Inl e \<Longrightarrow>
     evaluate_point sp py expr x_val =
       ([''Error en evaluaci'' @ o_acute @ ''n: '' @ str_exn e], None, Some (str_exn e))"
  by (simp add: evaluate_point_def)

lemma evaluate_point_x_plus_1:
  "evaluate_point sympy_ref python_ref x_plus_1 (Finite 2) =
      ([''Expresi'' @ o_acute @ ''n original: Add(Symbol('x'), Integer(1))'',
        ''Sustituyendo x = 2.0 -> 3.00000000000000'',
        ''C'' @ a_acute @ ''lculo num'' @ e_acute @ ''rico: f(2.0) = 3.0''],
       Some (Finite 3), None)"
  by (simp add: evaluate_point_def evaluate_point_try_def ref_simps)

lemma evaluate_point_one_over_x_at_0:
  "evaluate_point_try sympy_ref python_ref one_over_x (Finite 0) =
     Inl (Exception ''Cannot convert complex to float'')"
  by (simp add: evaluate_point_try_def ref_simps)

text \<open>
  Claim C6. When the six library calls of the \<^verbatim>\<open>try\<close> block return, the trace is
  the original representation, the substituted and simplified form and the numeric
  value, in this order, with the value as result and no error. When any of them raises
  \<open>e\<close>, the exception is caught: the trace is the one entry with \<^verbatim>\<open>str(e)\<close> and the
  error is \<^verbatim>\<open>str(e)\<close>. For \<^verbatim>\<open>x + 1\<close> at \<open>2.0\<close> the trace ends in \<open>3.0\<close> and
  the error is null.
\<close>

theorem evaluate_point_trace:
  "(\<forall>r s simp t n v.
      srepr sp expr = Inr r \<longrightarrow> subs sp expr x x_val = Inr s \<longrightarrow> simplify sp s = Inr simp \<longrightarrow>
      str sp simp = Inr t \<longrightarrow> N sp s = Inr n \<longrightarrow> float sp n = Inr v \<longrightarrow>
      evaluate_point sp py expr x_val =
        ([''Expresi'' @ o_acute @ ''n original: '' @ r,
          ''Sustituyendo x = '' @ format_repr py x_val @ '' -> '' @ t,
          ''C'' @ a_acute @ ''lculo num'' @ e_acute @ ''rico: f('' @ format_repr py x_val
             @ '') = '' @ format_repr py v],
         Some v, None)) \<and>
   (\<forall>e. (srepr sp expr = Inl e \<or>
      (\<exists>r. srepr sp expr = Inr r \<and>
        (subs sp expr x x_val = Inl e \<or>
         (\<exists>s. subs sp expr x x_val = Inr s \<and>
           (simplify sp s = Inl e \<or>
            (\<exists>simp. simplify sp s = Inr simp \<and>
              (str sp simp = Inl e \<or>
               (\<exists>t. str sp simp = Inr t \<and>
                 (N sp s = Inl e \<or> (\<exists>n. N sp s = Inr n \<and> float sp n = Inl e)))))))))) \<longrightarrow>
      evaluate_point sp py expr x_val =
        ([''Error en evaluaci'' @ o_acute @ ''n: '' @ str_exn e], None, Some (str_exn e))) \<and>
   evaluate_point sympy_ref python_ref x_plus_1 (Finite 2) =
      ([''Expresi'' @ o_acute @ ''n original: Add(Symbol('x'), Integer(1))'',
        ''Sustituyendo x = 2.0 -> 3.00000000000000'',
        ''C'' @ a_acute @ ''lculo num'' @ e_acute @ ''rico: f(2.0) = 3.0''],
       Some (Finite 3), None)"
proof (intro conjI allI impI)
  fix r s simp t n v
  assume "srepr sp expr = Inr r" "subs sp expr x x_val = Inr s" "simplify sp s = Inr simp"
    "str sp simp = Inr t" "N sp s = Inr n" "float sp n = Inr v"
  then have "evaluate_point_try sp py expr x_val =
     Inr ([''Expresi'' @ o_acute @ ''n original: '' @ r,
          ''Sustituyendo x = '' @ format_repr py x_val @ '' -> '' @ t,
          ''C'' @ a_acute @ ''lculo num'' @ e_acute @ ''rico: f('' @ format_repr py x_val
             @ '') = '' @ format_repr py v], v)"
    by (simp add: evaluate_point_try_def)
  then show "evaluate_point sp py expr x_val =
        ([''Expresi'' @ o_acute @ ''n original: '' @ r,
          ''Sustituyendo x = '' @ format_repr py x_val @ '' -> '' @ t,
          ''C'' @ a_acute @ ''lculo num'' @ e_acute @ ''rico: f('' @ format_repr py x_val
             @ '') = '' @ format_repr py v],
         Some v, None)"
    by (rule evaluate_point_success)
next
  fix e
  assume "srepr sp expr = Inl e \<or>
      (\<exists>r. srepr sp expr = Inr r \<and>
        (subs sp expr x x_val = Inl e \<or>
         (\<exists>s. subs sp expr x x_val = Inr s \<and>
           (simplify sp s = Inl e \<or>
            (\<exists>simp. simplify sp s = Inr simp \<and>
              (str sp simp = Inl e \<or>
               (\<exists>t. str sp simp = Inr t \<and>
                 (N sp s = Inl e \<or> (\<exists>n. N sp s = Inr n \<and> float sp n = Inl e)))))))))"
  then have "evaluate_point_try sp py expr x_val = Inl e"
    by (simp only: evaluate_point_try_Inl)
  then show "evaluate_point sp py expr x_val =
        ([''Error en evaluaci'' @ o_acute @ ''n: '' @ str_exn e], None, Some (str_exn e))"
    by (rule evaluate_point_failure)
next
  show "evaluate_point sympy_ref python_ref x_plus_1 (Finite 2) =
      ([''Expresi'' @ o_acute @ ''n original: Add(Symbol('x'), Integer(1))'',
        ''Sustituyendo x = 2.0 -> 3.00000000000000'',
        ''C'' @ a_acute @ ''lculo num'' @ e_acute @ ''rico: f(2.0) = 3.0''],
       Some (Finite 3), None)"
    by (rule evaluate_point_x_plus_1)
qed

text \<open>The failure branch at a concrete input: \<^verbatim>\<open>1/x\<close> at \<open>0\<close>.\<close>

theorem evaluate_point_trace_witness:
  "subs sympy_ref one_over_x x (Finite 0) = Inr ComplexInfinity \<and>
   N sympy_ref ComplexInfinity = Inr ComplexInfinity \<and>
   float sympy_ref ComplexInfinity = Inl (Exception ''Cannot convert complex to float'') \<and>
   evaluate_point sympy_ref python_ref one_over_x (Finite 0) =
     ([''Error en evaluaci'' @ o_acute @ ''n: Cannot convert complex to float''], None,
      Some ''Cannot convert complex to float'')"
  using evaluate_point_trace [of sympy_ref one_over_x "Finite 0" python_ref]
  by (simp add: ref_simps)

text \<open>
  Claim C10. Exactly one of the returned value and the returned error is null. With a
  value, the error is null and the trace is that of the \<^verbatim>\<open>try\<close> block; with an
  error message \<open>m\<close>, the value is null and the trace is the single entry that holds \<open>m\<close>.
\<close>

theorem evaluate_point_exactly_one_null:
  "evaluate_point sp py expr x_val = (steps, numeric, err) \<Longrightarrow>
     (numeric = None) \<noteq> (err = None) \<and>
     (\<forall>v. numeric = Some v \<longrightarrow> err = None \<and> evaluate_point_try sp py expr x_val = Inr (steps, v)) \<and>
     (\<forall>m. err = Some m \<longrightarrow> numeric = None \<and> steps = [''Error en evaluaci'' @ o_acute @ ''n: '' @ m] \<and>
        (\<exists>e. evaluate_point_try sp py expr x_val = Inl e \<and> str_exn e = m))"
  by (auto simp: evaluate_point_def split: sum.splits)

text \<open>The theorem at \<^verbatim>\<open>1/x\<close> and \<open>0\<close>, where the conversion to a float raises.\<close>

theorem evaluate_point_exactly_one_null_witness:
  "evaluate_point sympy_ref python_ref one_over_x (Finite 0) =
     ([''Error en evaluaci'' @ o_acute @ ''n: Cannot convert complex to float''], None,
      Some ''Cannot convert complex to float'') \<and>
   ((None :: pynum option) = None) \<noteq> (Some ''Cannot convert complex to float'' = None) \<and>
   (\<exists>e. evaluate_point_try sympy_ref python_ref one_over_x (Finite 0) = Inl e \<and>
        str_exn e = ''Cannot convert complex to float'')"
  using evaluate_point_exactly_one_null [of sympy_ref python_ref one_over_x "Finite 0"
      "[''Error en evaluaci'' @ o_acute @ ''n: Cannot convert complex to float'']" None
      "Some ''Cannot convert complex to float''"]
  by (simp add: evaluate_point_def evaluate_point_one_over_x_at_0)

section \<open>The parser is the library's parser with its exceptions caught\<close>

text \<open>
  Claim C4, as amended. \<^verbatim>\<open>safe_sympify\<close> returns the expression and no error when
  the library's \<^verbatim>\<open>sympify\<close> returns, and no expression and the message \<^verbatim>\<open>str(e)\<close>
  when it raises \<open>e\<close>; exactly one of the two components is null. It has no check of
  its own: it rejects what the library rejects and nothing else.
\<close>

theorem safe_sympify_result:
  "(\<forall>e. sympify sp s = Inr e \<longrightarrow> safe_sympify sp s = (Some e, None)) \<and>
   (\<forall>e. sympify sp s = Inl e \<longrightarrow> safe_sympify sp s = (None, Some (str_exn e))) \<and>
   (fst (safe_sympify sp s) = None) \<noteq> (snd (safe_sympify sp s) = None)"
  by (simp add: safe_sympify_def split: sum.splits)

text \<open>A malformed input that the library rejects, and a well-formed one.\<close>

theorem safe_sympify_result_witness:
  "sympify sympy_ref ''x +* 2'' = Inl (Exception ''SympifyError'') \<and>
   safe_sympify sympy_ref ''x +* 2'' = (None, Some ''SympifyError'') \<and>
   sympify sympy_ref ''1/x'' = Inr one_over_x \<and>
   safe_sympify sympy_ref ''1/x'' = (Some one_over_x, None)"
  using safe_sympify_result [of sympy_ref "''x +* 2''"] safe_sympify_result [of sympy_ref "''1/x''"]
  by (simp add: sympy_ref_def ref_sympify_def)

text \<open>
  Claim C4 as stated fails: the library turns an unknown name into a new symbol, so
  the input \<^verbatim>\<open>y\<close> is accepted, without an error, although \<open>y\<close> is not the variable
  of the program.
\<close>

theorem safe_sympify_accepts_unknown_symbol:
  "safe_sympify sympy_ref ''y'' = (Some (Symbol ''y''), None) \<and> Symbol ''y'' \<noteq> x"
  by (simp add: safe_sympify_def sympy_ref_def ref_sympify_def x_def)

section \<open>The exclusion set of the domain analyser\<close>

lemma real_sols_Inr:
  "real_sols sp sols = Inr rs \<Longrightarrow> rs = filter (\<lambda>s. im sp s = Inr (Integer 0)) sols"
  by (induction sols arbitrary: rs) (auto split: sum.splits if_splits)

lemma real_sols_returns:
  "\<forall>s\<in>set sols. \<exists>i. im sp s = Inr i \<Longrightarrow> \<exists>rs. real_sols sp sols = Inr rs"
  by (induction sols) (auto split: sum.splits)

lemma map_exn_set:
  "map_exn f ss = Inr vs \<Longrightarrow> set vs = {v. \<exists>s\<in>set ss. f s = Inr v}"
  by (induction ss arbitrary: vs) (auto split: sum.splits)

lemma map_exn_length:
  "map_exn f ss = Inr vs \<Longrightarrow> length vs = length ss"
  by (induction ss arbitrary: vs) (auto split: sum.splits)

lemma map_exn_returns:
  "\<forall>s\<in>set ss. \<exists>v. f s = Inr v \<Longrightarrow> \<exists>vs. map_exn f ss = Inr vs"
  by (induction ss) (auto split: sum.splits)

lemma add_simplified_set:
  "add_simplified sp ss acc = Inr out \<Longrightarrow>
     set out = set acc \<union> {v. \<exists>s\<in>set ss. simplify sp s = Inr v}"
  by (induction ss arbitrary: acc) (auto simp: set_add_def split: sum.splits if_splits)

lemma add_simplified_distinct:
  "add_simplified sp ss acc = Inr out \<Longrightarrow> distinct acc \<Longrightarrow> distinct out"
  by (induction ss arbitrary: acc) (auto simp: set_add_def split: sum.splits if_splits)

lemma compute_domain_Inr:
  "compute_domain sp expr = Inr (desc, excs, logs, roots) \<Longrightarrow>
     add_simplified sp (find_denominator_singularities sp expr) [] = Inr excs \<and>
     find_log_constraints sp expr = Inr logs \<and>
     find_even_root_problems sp expr = Inr roots"
  unfolding compute_domain_def by (auto split: sum.splits if_splits)

lemma singularities_den_one:
  "simplify sp expr = Inr simp \<Longrightarrow> fraction sp simp = Inr (num, Integer 1) \<Longrightarrow>
     find_denominator_singularities sp expr = []"
  by (simp add: find_denominator_singularities_def find_denominator_singularities_try_def)

lemma singularities_subset:
  assumes "simplify sp expr = Inr simp" "fraction sp simp = Inr (num, den)"
    "Eq sp den (Integer 0) = Inr eqn" "solve sp eqn x = Inr sols"
  shows "set (find_denominator_singularities sp expr) \<subseteq>
           {v. \<exists>s\<in>set sols. im sp s = Inr (Integer 0) \<and> simplify sp s = Inr v}"
proof (cases "find_denominator_singularities_try sp expr")
  case (Inl e)
  then show ?thesis by (simp add: find_denominator_singularities_def)
next
  case (Inr sing)
  show ?thesis
  proof (cases "den = Integer 1")
    case True
    with assms show ?thesis by (simp add: singularities_den_one)
  next
    case False
    with Inr assms obtain rs where rs: "real_sols sp sols = Inr rs" "map_exn (simplify sp) rs = Inr sing"
      by (auto simp: find_denominator_singularities_try_def split: sum.splits)
    from rs(1) have "rs = filter (\<lambda>s. im sp s = Inr (Integer 0)) sols" by (rule real_sols_Inr)
    with map_exn_set [OF rs(2)] have "set sing = {v. \<exists>s\<in>set sols. im sp s = Inr (Integer 0) \<and> simplify sp s = Inr v}"
      by auto
    with Inr show ?thesis by (simp add: find_denominator_singularities_def)
  qed
qed

lemma singularities_exact:
  assumes "simplify sp expr = Inr simp" "fraction sp simp = Inr (num, den)" "den \<noteq> Integer 1"
    "Eq sp den (Integer 0) = Inr eqn" "solve sp eqn x = Inr sols"
    "\<forall>s\<in>set sols. \<exists>i. im sp s = Inr i"
    "\<forall>s\<in>set sols. im sp s = Inr (Integer 0) \<longrightarrow> (\<exists>v. simplify sp s = Inr v)"
  shows "set (find_denominator_singularities sp expr) =
           {v. \<exists>s\<in>set sols. im sp s = Inr (Integer 0) \<and> simplify sp s = Inr v}"
proof -
  from assms(6) obtain rs where rs: "real_sols sp sols = Inr rs"
    using real_sols_returns by blast
  then have rs_eq: "rs = filter (\<lambda>s. im sp s = Inr (Integer 0)) sols" by (rule real_sols_Inr)
  with assms(7) have "\<forall>s\<in>set rs. \<exists>v. simplify sp s = Inr v" by simp
  then obtain sing where sing: "map_exn (simplify sp) rs = Inr sing"
    using map_exn_returns by blast
  from assms rs sing have "find_denominator_singularities sp expr = sing"
    by (simp add: find_denominator_singularities_def find_denominator_singularities_try_def)
  with map_exn_set [OF sing] rs_eq show ?thesis by auto
qed

text \<open>
  Claim C1. Let the library simplify the expression and split it into numerator and
  denominator \<open>den\<close>. If \<open>den\<close> is the constant 1 the exclusion set is empty. Otherwise
  every member is a solution \<open>s\<close> of \<open>den = 0\<close> returned by the solver, with imaginary part
  \<open>0\<close>, simplified (twice: by \<^verbatim>\<open>find_denominator_singularities\<close> and again by
  \<^verbatim>\<open>compute_domain\<close>); and when no call on a solution raises, the set holds exactly
  these. Hence, when the solver's solutions make \<open>den\<close> vanish and simplification keeps
  that, every member makes \<open>den\<close> vanish (\<open>vanishes den v\<close>: \<open>den\<close> is exactly zero at
  \<open>v\<close>).
\<close>

theorem exclusion_set_is_real_solutions:
  assumes "compute_domain sp expr = Inr (desc, excs, logs, roots)"
    and "simplify sp expr = Inr simp" and "fraction sp simp = Inr (num, den)"
  shows
   "(den = Integer 1 \<longrightarrow> excs = []) \<and>
    (\<forall>eqn sols. den \<noteq> Integer 1 \<longrightarrow> Eq sp den (Integer 0) = Inr eqn \<longrightarrow> solve sp eqn x = Inr sols \<longrightarrow>
       set excs \<subseteq> {v. \<exists>s\<in>set sols. \<exists>s'. im sp s = Inr (Integer 0) \<and> simplify sp s = Inr s' \<and>
                        simplify sp s' = Inr v} \<and>
       ((\<forall>s\<in>set sols. \<exists>i. im sp s = Inr i) \<longrightarrow>
        (\<forall>s\<in>set sols. im sp s = Inr (Integer 0) \<longrightarrow> (\<exists>s'. simplify sp s = Inr s')) \<longrightarrow>
          set excs = {v. \<exists>s\<in>set sols. \<exists>s'. im sp s = Inr (Integer 0) \<and> simplify sp s = Inr s' \<and>
                        simplify sp s' = Inr v})) \<and>
    ((\<forall>eqn sols s. Eq sp den (Integer 0) = Inr eqn \<longrightarrow> solve sp eqn x = Inr sols \<longrightarrow> s \<in> set sols \<longrightarrow>
         vanishes den s) \<longrightarrow>
     (\<forall>a b. simplify sp a = Inr b \<longrightarrow> vanishes den a \<longrightarrow> vanishes den b) \<longrightarrow>
     (\<forall>v\<in>set excs. vanishes den v))"
proof -
  let ?sing = "find_denominator_singularities sp expr"
  from assms(1) have "add_simplified sp ?sing [] = Inr excs"
    by (simp add: compute_domain_Inr)
  then have excs: "set excs = {v. \<exists>s\<in>set ?sing. simplify sp s = Inr v}"
    by (simp add: add_simplified_set)
  have one: "den = Integer 1 \<longrightarrow> excs = []"
    using assms(2,3) excs by (auto simp: singularities_den_one)
  have two: "set excs \<subseteq> {v. \<exists>s\<in>set sols. \<exists>s'. im sp s = Inr (Integer 0) \<and> simplify sp s = Inr s' \<and>
                        simplify sp s' = Inr v}"
    if "Eq sp den (Integer 0) = Inr eqn" "solve sp eqn x = Inr sols" for eqn sols
    using singularities_subset [OF assms(2,3) that] excs by blast
  have three: "set excs = {v. \<exists>s\<in>set sols. \<exists>s'. im sp s = Inr (Integer 0) \<and> simplify sp s = Inr s' \<and>
                        simplify sp s' = Inr v}"
    if "den \<noteq> Integer 1" "Eq sp den (Integer 0) = Inr eqn" "solve sp eqn x = Inr sols"
      "\<forall>s\<in>set sols. \<exists>i. im sp s = Inr i"
      "\<forall>s\<in>set sols. im sp s = Inr (Integer 0) \<longrightarrow> (\<exists>s'. simplify sp s = Inr s')" for eqn sols
    using singularities_exact [OF assms(2,3) that] excs by blast
  have four: "\<forall>v\<in>set excs. vanishes den v"
    if sound: "\<forall>eqn sols s. Eq sp den (Integer 0) = Inr eqn \<longrightarrow> solve sp eqn x = Inr sols \<longrightarrow> s \<in> set sols \<longrightarrow>
         vanishes den s"
      and pres: "\<forall>a b. simplify sp a = Inr b \<longrightarrow> vanishes den a \<longrightarrow> vanishes den b"
  proof (cases "?sing = []")
    case True
    with excs show ?thesis by simp
  next
    case False
    then obtain sing where t: "find_denominator_singularities_try sp expr = Inr sing"
      by (auto simp: find_denominator_singularities_def split: sum.splits)
    with False assms(2,3) obtain eqn sols where
      "Eq sp den (Integer 0) = Inr eqn" "solve sp eqn x = Inr sols"
      by (auto simp: find_denominator_singularities_def find_denominator_singularities_try_def
          split: sum.splits if_splits)
    then show ?thesis using two sound pres by blast
  qed
  from one two three four show ?thesis by blast
qed


lemma compute_domain_one_over_x:
  "compute_domain sympy_ref one_over_x =
     Inr (''Dominio: todos los reales, excepto x = 0'', [Integer 0], [], [])"
  by (simp add: compute_domain_def find_denominator_singularities_def
      find_denominator_singularities_try_def find_log_constraints_def find_even_root_problems_def
      set_add_def str_N_def domain_parts_def ref_simps)

text \<open>The theorem at \<^verbatim>\<open>1/x\<close>: the denominator is \<open>x\<close>, its only zero is \<open>0\<close>.\<close>

theorem exclusion_set_is_real_solutions_witness:
  "compute_domain sympy_ref one_over_x =
     Inr (''Dominio: todos los reales, excepto x = 0'', [Integer 0], [], []) \<and>
   simplify sympy_ref one_over_x = Inr one_over_x \<and>
   fraction sympy_ref one_over_x = Inr (Integer 1, x) \<and>
   x \<noteq> Integer 1 \<and>
   Eq sympy_ref x (Integer 0) = Inr (Rel_eq x (Integer 0)) \<and>
   solve sympy_ref (Rel_eq x (Integer 0)) x = Inr [Integer 0] \<and>
   set [Integer 0] = {v. \<exists>s\<in>set [Integer 0]. \<exists>s'. im sympy_ref s = Inr (Integer 0) \<and>
       simplify sympy_ref s = Inr s' \<and> simplify sympy_ref s' = Inr v}"
proof -
  have a: "simplify sympy_ref one_over_x = Inr one_over_x" by (simp add: ref_simps)
  have b: "fraction sympy_ref one_over_x = Inr (Integer 1, x)" by (simp add: ref_simps)
  have c: "x \<noteq> Integer 1" by (simp add: x_def)
  have d: "Eq sympy_ref x (Integer 0) = Inr (Rel_eq x (Integer 0))" by (simp add: ref_simps)
  have e: "solve sympy_ref (Rel_eq x (Integer 0)) x = Inr [Integer 0]" by (simp add: ref_simps)
  have f: "\<forall>s\<in>set [Integer 0]. \<exists>i. im sympy_ref s = Inr i" by (simp add: ref_simps)
  have g: "\<forall>s\<in>set [Integer 0]. im sympy_ref s = Inr (Integer 0) \<longrightarrow> (\<exists>s'. simplify sympy_ref s = Inr s')"
    by (simp add: ref_simps)
  from exclusion_set_is_real_solutions [OF compute_domain_one_over_x a b, of "\<lambda>den s. s = Integer 0"]
    c d e f g
  have "set [Integer 0] = {v. \<exists>s\<in>set [Integer 0]. \<exists>s'. im sympy_ref s = Inr (Integer 0) \<and>
       simplify sympy_ref s = Inr s' \<and> simplify sympy_ref s' = Inr v}"
    by blast
  with compute_domain_one_over_x a b c d e show ?thesis by blast
qed

section \<open>The description of the domain\<close>

lemma map_exn_list_all2:
  "map_exn f ss = Inr vs \<Longrightarrow> list_all2 (\<lambda>s v. f s = Inr v) ss vs"
  by (induction ss arbitrary: vs) (auto split: sum.splits)

lemma str_N_Inr: "str_N sp v = Inr t \<longleftrightarrow> (\<exists>n. N sp v = Inr n \<and> str sp n = Inr t)"
  by (auto simp: str_N_def split: sum.splits)

lemma compute_domain_plain:
  "compute_domain sp expr = Inr (desc, [], [], []) \<Longrightarrow> desc = ''Dominio: todos los reales''"
  unfolding compute_domain_def by (auto split: sum.splits if_splits)

lemma compute_domain_parts:
  assumes "compute_domain sp expr = Inr (desc, excs, logs, roots)"
    and "excs \<noteq> [] \<or> logs \<noteq> [] \<or> roots \<noteq> []"
  shows "\<exists>strs. map_exn (str_N sp) excs = Inr strs \<and>
           desc = ''Dominio: todos los reales, '' @
                  join ''; '' (domain_parts (join '', '' strs) excs logs roots)"
  using assms unfolding compute_domain_def
  by (auto split: sum.splits if_splits)

lemma join_concat:
  "strs \<noteq> [] \<Longrightarrow> join sep strs = concat (map (\<lambda>t. t @ sep) (butlast strs)) @ last strs"
  by (induction sep strs rule: join.induct) simp_all

lemma compute_domain_log_x_over_x:
  "compute_domain sympy_ref log_x_over_x =
     Inr (''Dominio: todos los reales, excepto x = 0; y adem'' @ a_acute
            @ ''s los argumentos de log deben ser > 0'',
          [Integer 0], [Rel_gt x (Integer 0)], [])"
  by (simp add: compute_domain_def find_denominator_singularities_def
      find_denominator_singularities_try_def find_log_constraints_def find_even_root_problems_def
      set_add_def str_N_def domain_parts_def ref_simps)

lemma compute_domain_sqrt_x:
  "compute_domain sympy_ref sqrt_x =
     Inr (''Dominio: todos los reales, y cuidar ra'' @ i_acute @ ''ces de '' @ i_acute
            @ ''ndice par (radicandos >= 0)'', [], [], [Rel_gt x NegativeInfinity])"
  by (simp add: compute_domain_def find_denominator_singularities_def
      find_denominator_singularities_try_def find_log_constraints_def find_even_root_problems_def
      set_add_def str_N_def domain_parts_def ref_simps)

text \<open>
  Claim C8 as stated fails: it promises the excluded values in an "all reals except"
  form whenever a list is not empty. For \<^verbatim>\<open>sqrt(x)\<close> the only non-empty list is that of
  the even-root constraints, and the description has the caveat alone, with no
  \<^verbatim>\<open>excepto\<close> in it.
\<close>

theorem description_without_exclusions_has_no_except_form:
  "compute_domain sympy_ref sqrt_x =
     Inr (''Dominio: todos los reales, y cuidar ra'' @ i_acute @ ''ces de '' @ i_acute
            @ ''ndice par (radicandos >= 0)'', [], [], [Rel_gt x NegativeInfinity]) \<and>
   \<not> sublist ''excepto''
      (''Dominio: todos los reales, y cuidar ra'' @ i_acute @ ''ces de '' @ i_acute
            @ ''ndice par (radicandos >= 0)'')"
proof -
  have "\<not> sublist ''excepto''
      (''Dominio: todos los reales, y cuidar ra'' @ i_acute @ ''ces de '' @ i_acute
            @ ''ndice par (radicandos >= 0)'')"
    by code_simp
  with compute_domain_sqrt_x show ?thesis by blast
qed


text \<open>
  Claim C8, as amended. The description is \<^verbatim>\<open>Dominio: todos los reales\<close> exactly when
  the exclusions, the logarithm constraints and the even-root constraints are all empty.
  Otherwise it is \<^verbatim>\<open>Dominio: todos los reales, \<close> followed by the clauses that apply,
  separated by \<^verbatim>\<open>; \<close>, in this order: \<^verbatim>\<open>excepto x = \<close> and the excluded values
  separated by \<^verbatim>\<open>, \<close> (each rendered by \<^verbatim>\<open>str(sp.N(v))\<close>), only when there are
  exclusions; the logarithm caveat, only when there are logarithm constraints; the
  even-root caveat, only when there are even-root constraints. The seven cases are
  written out.
\<close>

theorem compute_domain_description_clauses:
  assumes "compute_domain sp expr = Inr (desc, excs, logs, roots)"
  shows
   "(desc = ''Dominio: todos los reales'' \<longleftrightarrow> excs = [] \<and> logs = [] \<and> roots = []) \<and>
    (\<exists>strs. list_all2 (\<lambda>v t. \<exists>n. N sp v = Inr n \<and> str sp n = Inr t) excs strs \<and>
       (\<forall>values log_clause root_clause.
          values = ''excepto x = '' @ concat (map (\<lambda>t. t @ '', '') (butlast strs)) @ last strs \<longrightarrow>
          log_clause = ''y adem'' @ a_acute @ ''s los argumentos de log deben ser > 0'' \<longrightarrow>
          root_clause = ''y cuidar ra'' @ i_acute @ ''ces de '' @ i_acute
             @ ''ndice par (radicandos >= 0)'' \<longrightarrow>
          (excs \<noteq> [] \<and> logs = [] \<and> roots = [] \<longrightarrow>
             desc = ''Dominio: todos los reales, '' @ values) \<and>
          (excs \<noteq> [] \<and> logs \<noteq> [] \<and> roots = [] \<longrightarrow>
             desc = ''Dominio: todos los reales, '' @ values @ ''; '' @ log_clause) \<and>
          (excs \<noteq> [] \<and> logs = [] \<and> roots \<noteq> [] \<longrightarrow>
             desc = ''Dominio: todos los reales, '' @ values @ ''; '' @ root_clause) \<and>
          (excs \<noteq> [] \<and> logs \<noteq> [] \<and> roots \<noteq> [] \<longrightarrow>
             desc = ''Dominio: todos los reales, '' @ values @ ''; '' @ log_clause @ ''; ''
                      @ root_clause) \<and>
          (excs = [] \<and> logs \<noteq> [] \<and> roots = [] \<longrightarrow>
             desc = ''Dominio: todos los reales, '' @ log_clause) \<and>
          (excs = [] \<and> logs = [] \<and> roots \<noteq> [] \<longrightarrow>
             desc = ''Dominio: todos los reales, '' @ root_clause) \<and>
          (excs = [] \<and> logs \<noteq> [] \<and> roots \<noteq> [] \<longrightarrow>
             desc = ''Dominio: todos los reales, '' @ log_clause @ ''; '' @ root_clause)))"
proof (cases "excs = [] \<and> logs = [] \<and> roots = []")
  case True
  with assms have "desc = ''Dominio: todos los reales''" by (simp add: compute_domain_plain)
  with True show ?thesis by simp
next
  case False
  then have ne: "excs \<noteq> [] \<or> logs \<noteq> [] \<or> roots \<noteq> []" by blast
  from compute_domain_parts [OF assms ne] obtain strs where
    strs: "map_exn (str_N sp) excs = Inr strs"
    and desc: "desc = ''Dominio: todos los reales, '' @
                  join ''; '' (domain_parts (join '', '' strs) excs logs roots)"
    by blast
  from strs have "list_all2 (\<lambda>v t. str_N sp v = Inr t) excs strs" by (rule map_exn_list_all2)
  then have l: "list_all2 (\<lambda>v t. \<exists>n. N sp v = Inr n \<and> str sp n = Inr t) excs strs"
    by (simp add: str_N_Inr)
  have "length desc \<noteq> length ''Dominio: todos los reales''"
    unfolding desc by simp
  then have d: "desc \<noteq> ''Dominio: todos los reales''" by blast
  from l have len: "length strs = length excs" by (simp add: list_all2_lengthD)
  have j: "excs \<noteq> [] \<Longrightarrow>
             join '', '' strs = concat (map (\<lambda>t. t @ '', '') (butlast strs)) @ last strs"
    using len by (intro join_concat) auto
  have cases: "\<forall>values log_clause root_clause.
          values = ''excepto x = '' @ concat (map (\<lambda>t. t @ '', '') (butlast strs)) @ last strs \<longrightarrow>
          log_clause = ''y adem'' @ a_acute @ ''s los argumentos de log deben ser > 0'' \<longrightarrow>
          root_clause = ''y cuidar ra'' @ i_acute @ ''ces de '' @ i_acute
             @ ''ndice par (radicandos >= 0)'' \<longrightarrow>
          (excs \<noteq> [] \<and> logs = [] \<and> roots = [] \<longrightarrow>
             desc = ''Dominio: todos los reales, '' @ values) \<and>
          (excs \<noteq> [] \<and> logs \<noteq> [] \<and> roots = [] \<longrightarrow>
             desc = ''Dominio: todos los reales, '' @ values @ ''; '' @ log_clause) \<and>
          (excs \<noteq> [] \<and> logs = [] \<and> roots \<noteq> [] \<longrightarrow>
             desc = ''Dominio: todos los reales, '' @ values @ ''; '' @ root_clause) \<and>
          (excs \<noteq> [] \<and> logs \<noteq> [] \<and> roots \<noteq> [] \<longrightarrow>
             desc = ''Dominio: todos los reales, '' @ values @ ''; '' @ log_clause @ ''; ''
                      @ root_clause) \<and>
          (excs = [] \<and> logs \<noteq> [] \<and> roots = [] \<longrightarrow>
             desc = ''Dominio: todos los reales, '' @ log_clause) \<and>
          (excs = [] \<and> logs = [] \<and> roots \<noteq> [] \<longrightarrow>
             desc = ''Dominio: todos los reales, '' @ root_clause) \<and>
          (excs = [] \<and> logs \<noteq> [] \<and> roots \<noteq> [] \<longrightarrow>
             desc = ''Dominio: todos los reales, '' @ log_clause @ ''; '' @ root_clause)"
    using j unfolding desc domain_parts_def by simp
  from False d l cases show ?thesis by blast
qed

text \<open>The theorem at \<^verbatim>\<open>log(x)/x\<close>: an exclusion and the logarithm caveat, two clauses.\<close>

theorem compute_domain_description_clauses_witness:
  "compute_domain sympy_ref log_x_over_x =
     Inr (''Dominio: todos los reales, excepto x = 0; y adem'' @ a_acute
            @ ''s los argumentos de log deben ser > 0'',
          [Integer 0], [Rel_gt x (Integer 0)], []) \<and>
   (\<exists>strs. list_all2 (\<lambda>v t. \<exists>n. N sympy_ref v = Inr n \<and> str sympy_ref n = Inr t) [Integer 0] strs \<and>
      ''Dominio: todos los reales, excepto x = 0; y adem'' @ a_acute
            @ ''s los argumentos de log deben ser > 0'' =
      ''Dominio: todos los reales, '' @
        (''excepto x = '' @ concat (map (\<lambda>t. t @ '', '') (butlast strs)) @ last strs) @ ''; '' @
        (''y adem'' @ a_acute @ ''s los argumentos de log deben ser > 0''))"
proof -
  from compute_domain_description_clauses [OF compute_domain_log_x_over_x]
  have "\<exists>strs. list_all2 (\<lambda>v t. \<exists>n. N sympy_ref v = Inr n \<and> str sympy_ref n = Inr t) [Integer 0] strs \<and>
      ''Dominio: todos los reales, excepto x = 0; y adem'' @ a_acute
            @ ''s los argumentos de log deben ser > 0'' =
      ''Dominio: todos los reales, '' @
        (''excepto x = '' @ concat (map (\<lambda>t. t @ '', '') (butlast strs)) @ last strs) @ ''; '' @
        (''y adem'' @ a_acute @ ''s los argumentos de log deben ser > 0'')"
    by auto
  with compute_domain_log_x_over_x show ?thesis by blast
qed

lemma even_root_loop_emits:
  "even_root_loop sp ps constraints = Inr out \<Longrightarrow> c \<in> set out \<Longrightarrow>
     c \<in> set constraints \<or>
     (\<exists>p\<in>set ps. \<exists>base expo. as_base_exp sp p = Inr (base, expo) \<and>
        StrictGreaterThan sp base NegativeInfinity = Inr c)"
proof (induction ps arbitrary: constraints)
  case Nil
  then show ?case by simp
next
  case (Cons p ps)
  from Cons.prems(1) obtain cs where l: "even_root_loop sp ps cs = Inr out"
    and cs: "cs = constraints \<or>
      (\<exists>base expo c'. as_base_exp sp p = Inr (base, expo) \<and>
         StrictGreaterThan sp base NegativeInfinity = Inr c' \<and> cs = constraints @ [c'])"
    by (auto split: sum.splits if_splits option.splits)
  from Cons.IH [OF l Cons.prems(2)] have
    "c \<in> set cs \<or>
     (\<exists>p\<in>set ps. \<exists>base expo. as_base_exp sp p = Inr (base, expo) \<and>
        StrictGreaterThan sp base NegativeInfinity = Inr c)" .
  with cs show ?case by auto
qed

lemma find_even_root_problems_emits:
  assumes "find_even_root_problems sp expr = Inr roots" and "c \<in> set roots"
  shows "\<exists>ps p base expo. atoms sp expr Cls_Pow = Inr ps \<and> p \<in> set ps \<and>
           as_base_exp sp p = Inr (base, expo) \<and>
           StrictGreaterThan sp base NegativeInfinity = Inr c"
proof -
  from assms(1) obtain ps where ps: "atoms sp expr Cls_Pow = Inr ps"
    and l: "even_root_loop sp ps [] = Inr roots"
    by (auto simp: find_even_root_problems_def split: sum.splits)
  from even_root_loop_emits [OF l assms(2)] ps show ?thesis by auto
qed

text \<open>
  Claim C2 fails on the code. Every constraint that \<^verbatim>\<open>find_even_root_problems\<close>
  emits is \<^verbatim>\<open>StrictGreaterThan(base, -oo)\<close>, as the two lemmas above say. For \<^verbatim>\<open>sqrt(x)\<close>, a power with exponent \<open>1/2\<close>, the
  constraint emitted is \<open>x > -oo\<close>, which holds of every real, and not \<open>x >= 0\<close>.
\<close>

theorem even_root_constraint_is_vacuous:
  "find_even_root_problems sympy_ref sqrt_x = Inr [Rel_gt x NegativeInfinity] \<and>
   find_even_root_problems sympy_ref sqrt_x \<noteq> Inr [Rel_ge x (Integer 0)]"
  by (simp add: find_even_root_problems_def ref_simps)

section \<open>The numeric fallback of the range estimator\<close>


















section \<open>The curve sampler\<close>

lemma skip_near_iff:
  "skip_near sp cur excs \<longleftrightarrow>
     (\<exists>s\<in>set excs. \<exists>n sval. N sp s = Inr n \<and> float sp n = Inr sval \<and> near cur sval)"
  by (induction excs) (auto split: sum.splits)







text \<open>
  The loop returns when the interval is not a single point; on a single point the step
  is \<open>0\<close> and it never returns.
\<close>

lemma sample_step_cur: "fst (sample_step sp expr excs step (cur, xs, ys)) = cur + step"
  by (simp split: option.splits)



lemma sample_function_empty_interval:
  assumes "x_max < x_min"
  shows "sample_function sp expr excs x_min x_max n_points = Some ([], [])"
  using assms by (simp add: sample_function_def Let_def while_option_unfold)

lemma sample_function_diverges:
  "sample_function sp expr excs x_min x_min n_points = None"
proof (rule ccontr)
  assume "sample_function sp expr excs x_min x_min n_points \<noteq> None"
  then obtain cur xs ys where
    w: "while_option (\<lambda>(cur, xs, ys). cur \<le> x_min) (sample_step sp expr excs 0) (x_min, [], [])
             = Some (cur, xs, ys)"
    by (auto simp: sample_function_def Let_def)
  have "fst (cur, xs, ys) = x_min"
  proof (rule while_option_rule [where P = "\<lambda>st. fst st = x_min", OF _ w])
    fix st :: "rat \<times> rat list \<times> pynum list"
    assume "fst st = x_min"
    then show "fst (sample_step sp expr excs 0 st) = x_min"
      by (cases st) (simp add: sample_step_cur del: sample_step.simps)
  qed simp
  moreover from while_option_stop [OF w] have "\<not> cur \<le> x_min" by simp
  ultimately show False by simp
qed












lemma skip_near_library:
  "N sp = N sp' \<Longrightarrow> float sp = float sp' \<Longrightarrow> skip_near sp cur excs = skip_near sp' cur excs"
  by (simp add: skip_near_iff)

lemma sample_point_library:
  "N sp = N sp' \<Longrightarrow> float sp = float sp' \<Longrightarrow> subs sp = subs sp' \<Longrightarrow> is_real sp = is_real sp' \<Longrightarrow>
     sample_point sp expr cur = sample_point sp' expr cur"
  by (simp add: sample_point_def split: sum.splits)

lemma sample_step_library:
  "N sp = N sp' \<Longrightarrow> float sp = float sp' \<Longrightarrow> subs sp = subs sp' \<Longrightarrow> is_real sp = is_real sp' \<Longrightarrow>
     sample_step sp expr excs step = sample_step sp' expr excs step"
proof
  fix st :: "rat \<times> rat list \<times> pynum list"
  assume a: "N sp = N sp'" "float sp = float sp'" "subs sp = subs sp'" "is_real sp = is_real sp'"
  obtain cur xs ys where "st = (cur, xs, ys)" by (cases st)
  then show "sample_step sp expr excs step st = sample_step sp' expr excs step st"
    using skip_near_library [OF a(1,2)] sample_point_library [OF a] by simp
qed

text \<open>
  Claim C9. The sampler's answer is a function of its arguments and of what the library
  answers to \<^verbatim>\<open>N\<close>, \<^verbatim>\<open>float\<close>, \<^verbatim>\<open>subs\<close> and \<^verbatim>\<open>is_real\<close>: two calls with the same
  arguments, against libraries that agree on these four, return the same lists, or both
  do not return.
\<close>

theorem sample_function_deterministic:
  assumes "N sp = N sp'" "float sp = float sp'" "subs sp = subs sp'" "is_real sp = is_real sp'"
  shows "sample_function sp expr excs x_min x_max n_points =
         sample_function sp' expr excs x_min x_max n_points"
  unfolding sample_function_def sample_step_library [OF assms] ..

section \<open>The analysis of 1/x\<close>










text \<open>Two libraries that differ elsewhere and agree on the four calls.\<close>

theorem sample_function_deterministic_witness:
  "N sympy_ref = N sympy_range_fails \<and> float sympy_ref = float sympy_range_fails \<and>
   subs sympy_ref = subs sympy_range_fails \<and> is_real sympy_ref = is_real sympy_range_fails \<and>
   function_range sympy_ref x_plus_1 x Reals \<noteq> function_range sympy_range_fails x_plus_1 x Reals \<and>
   sample_function sympy_ref one_over_x [Integer 0] (- 1) 1 4 =
     sample_function sympy_range_fails one_over_x [Integer 0] (- 1) 1 4"
  using sample_function_deterministic [of sympy_ref sympy_range_fails one_over_x "[Integer 0]" "- 1" 1 4]
  by (simp add: sympy_range_fails_def sympy_ref_def ref_function_range_def)

end
